theory Spec2Isabelle
  imports Complex_Main "HOL-Library.Word"
begin

unbundle bit_operations_syntax

section \<open>Basis sets: the declarations of BasisSets.h\<close>

text \<open>
  \<^verbatim>\<open>enum BoundStyle { UNWRAPPED, WRAPPED, TAPERED, NBOUND };\<close>
  \<^verbatim>\<open>enum DiffStyle { FORWARD_DIFFERENCE, CENTRAL_DIFFERENCE, NDIFF };\<close>
\<close>

datatype BoundStyle = UNWRAPPED | WRAPPED | TAPERED | NBOUND

datatype DiffStyle = FORWARD_DIFFERENCE | CENTRAL_DIFFERENCE | NDIFF

text \<open>The enumerators' integer values, as C++ numbers them from 0.\<close>

fun BoundStyle_value :: "BoundStyle \<Rightarrow> nat" where
  "BoundStyle_value UNWRAPPED = 0"
| "BoundStyle_value WRAPPED = 1"
| "BoundStyle_value TAPERED = 2"
| "BoundStyle_value NBOUND = 3"

text \<open>
  The arguments with which the body of \<^verbatim>\<open>generateFiniteDifferenceRegularization\<close> is
  entered. The declaration is
  \<^verbatim>\<open>generateFiniteDifferenceRegularization(unsigned int width, unsigned int height,
      unsigned int order, BoundStyle boundaryStyle = WRAPPED,
      DiffStyle differenceStyle = FORWARD_DIFFERENCE)\<close>:
  a trailing argument the caller leaves out (\<open>None\<close>) takes the declared default.
\<close>

record FdrArgs =
  width :: "32 word"
  height :: "32 word"
  order :: "32 word"
  boundaryStyle :: BoundStyle
  differenceStyle :: DiffStyle

definition generateFiniteDifferenceRegularization_args ::
  "32 word \<Rightarrow> 32 word \<Rightarrow> 32 word \<Rightarrow> BoundStyle option \<Rightarrow> DiffStyle option \<Rightarrow> FdrArgs" where
  "generateFiniteDifferenceRegularization_args w h ord bs ds =
     \<lparr>width = w, height = h, order = ord,
      boundaryStyle = (case bs of None \<Rightarrow> WRAPPED | Some b \<Rightarrow> b),
      differenceStyle = (case ds of None \<Rightarrow> FORWARD_DIFFERENCE | Some d \<Rightarrow> d)\<rparr>"

section \<open>The collaborators of KernelCandidateDetection\<close>

subsection \<open>Exceptions\<close>

text \<open>
  The exceptions of \<^verbatim>\<open>lsst::pex::exceptions\<close>. Every constructor is a
  \<^verbatim>\<open>pexExcept::Exception\<close>, so a handler \<^verbatim>\<open>catch (pexExcept::Exception& e)\<close>
  catches each of them.
\<close>

datatype pexExcept = Exception string | LengthError | InvalidParameterError

text \<open>
  \<^verbatim>\<open>try { body } catch (pexExcept::Exception& e) { handler }\<close>: the value of the body,
  or what the handler does with the exception the body raised.
\<close>

definition try_catch :: "pexExcept + 'a \<Rightarrow> (pexExcept \<Rightarrow> pexExcept + 'a) \<Rightarrow> pexExcept + 'a" where
  "try_catch body handler = (case body of Inl e \<Rightarrow> handler e | Inr v \<Rightarrow> Inr v)"

subsection \<open>Integer boxes\<close>

type_synonym Point2I = "int \<times> int"
type_synonym Extent2I = "int \<times> int"

text \<open>
  Modelled from the spec: the bounding box of the image collaborator (\<^verbatim>\<open>afwGeom::Box2I\<close>,
  whose code is not part of the sources). A box is its minimum corner and its dimensions;
  the empty box has dimensions (0, 0). The maximum corner is inclusive.
\<close>

record Box2I =
  minimum :: Point2I
  dimensions :: Extent2I

definition emptyBox2I :: Box2I where
  "emptyBox2I = \<lparr>minimum = (0, 0), dimensions = (0, 0)\<rparr>"

definition getMinX :: "Box2I \<Rightarrow> int" where
  "getMinX b = fst (minimum b)"

definition getMinY :: "Box2I \<Rightarrow> int" where
  "getMinY b = snd (minimum b)"

definition getMaxX :: "Box2I \<Rightarrow> int" where
  "getMaxX b = fst (minimum b) + fst (dimensions b) - 1"

definition getMaxY :: "Box2I \<Rightarrow> int" where
  "getMaxY b = snd (minimum b) + snd (dimensions b) - 1"

definition isEmpty :: "Box2I \<Rightarrow> bool" where
  "isEmpty b = (fst (dimensions b) = 0 \<and> snd (dimensions b) = 0)"

text \<open>
  Modelled from the spec: \<open>contains b other\<close> is "\<open>other\<close> is fully contained in
  \<open>b\<close>"; an empty box holds no pixel and is contained in every box.
\<close>

definition contains :: "Box2I \<Rightarrow> Box2I \<Rightarrow> bool" where
  "contains b other =
     (isEmpty other \<or>
      (getMinX b \<le> getMinX other \<and> getMinY b \<le> getMinY other \<and>
       getMaxX other \<le> getMaxX b \<and> getMaxY other \<le> getMaxY b))"

text \<open>The pixels of a box, row by row.\<close>

definition boxPixels :: "Box2I \<Rightarrow> Point2I list" where
  "boxPixels b =
     concat (map (\<lambda>y. map (\<lambda>x. (x, y)) [getMinX b..getMaxX b]) [getMinY b..getMaxY b])"

subsection \<open>Regions\<close>

text \<open>
  Modelled from the spec: a region (footprint) is an irregular set of pixel coordinates
  plus its derived bounding box (\<^verbatim>\<open>afwGeom::SpanSet\<close> and \<^verbatim>\<open>afwDetect::Footprint\<close>,
  whose code is not part of the sources). The pixels are kept as a list; the area counts
  each pixel once.
\<close>

type_synonym SpanSet = "Point2I list"

datatype Footprint = Footprint (getSpans: SpanSet)

definition spanSetBBox :: "SpanSet \<Rightarrow> Box2I" where
  "spanSetBBox ps =
     (if ps = [] then emptyBox2I
      else let x0 = Min (set (map fst ps)); x1 = Max (set (map fst ps));
               y0 = Min (set (map snd ps)); y1 = Max (set (map snd ps))
           in \<lparr>minimum = (x0, y0), dimensions = (x1 - x0 + 1, y1 - y0 + 1)\<rparr>)"

definition getBBox :: "Footprint \<Rightarrow> Box2I" where
  "getBBox fp = spanSetBBox (getSpans fp)"

definition getArea :: "Footprint \<Rightarrow> nat" where
  "getArea fp = length (remdups (getSpans fp))"

text \<open>\<^verbatim>\<open>SpanSet(Box2I)\<close>: the region made of every pixel of a box.\<close>

definition spanSetOfBox :: "Box2I \<Rightarrow> SpanSet" where
  "spanSetOfBox b = boxPixels b"

text \<open>
  Modelled from the spec: dilation (grow) expands a region by including all pixels within
  a given distance under a chosen metric; \<open>dilated ps r\<close> is
  \<^verbatim>\<open>dilated(r, afwGeom::Stencil::MANHATTAN)\<close>, the diamond-shaped (L1-ball) structuring
  element, the only stencil this code uses. The offsets of the diamond of radius \<open>r\<close> are
  the \<open>(dx, dy)\<close> with \<open>\<bar>dx\<bar> + \<bar>dy\<bar> \<le> r\<close>. The spec speaks of non-negative margins only.
\<close>

definition manhattanOffsets :: "int \<Rightarrow> Point2I list" where
  "manhattanOffsets r =
     concat (map (\<lambda>dy. map (\<lambda>dx. (dx, dy)) [- (r - \<bar>dy\<bar>)..r - \<bar>dy\<bar>]) [- r..r])"

text \<open>
  Modelled from the spec: the dilated region holds every pixel of the region moved by
  every offset of the diamond.
\<close>

definition dilated :: "SpanSet \<Rightarrow> int \<Rightarrow> SpanSet" where
  "dilated ps r =
     concat (map (\<lambda>(x, y). map (\<lambda>(dx, dy). (x + dx, y + dy)) (manhattanOffsets r)) ps)"

subsection \<open>Images\<close>

text \<open>
  Modelled from the spec: an image is a rectangular pixel grid with a parallel per-pixel
  mask (a bitfield). Pixels are addressed in the parent coordinates of the bounding box.
  The pixel type \<open>'p\<close> is the template parameter \<^verbatim>\<open>PixelT\<close>; the mask pixel is a word of
  the width of \<^verbatim>\<open>afwImage::MaskPixel\<close>. The variance channel is never read here.
\<close>

record ('p, 'm) MaskedImage =
  bbox :: Box2I
  imagePlane :: "Point2I \<Rightarrow> 'p"
  maskPlane :: "Point2I \<Rightarrow> 'm"

text \<open>
  Modelled from the spec: rectangular sub-image extraction by bounding box, which fails
  when the box is not within the image. The sub-image shares the parent's pixels.
\<close>

definition subimage :: "('p, 'm) MaskedImage \<Rightarrow> Box2I \<Rightarrow> pexExcept + ('p, 'm) MaskedImage" where
  "subimage img bb =
     (if contains (bbox img) bb then Inr (img\<lparr>bbox := bb\<rparr>) else Inl LengthError)"

text \<open>
  Modelled from the spec: the functor \<^verbatim>\<open>FindSetBits\<close> of this package (its header
  \<^verbatim>\<open>FindSetBits.h\<close> is not part of the sources) searches an image's mask for set bits:
  \<open>apply\<close> visits every pixel of the mask and \<open>getBits\<close> is the bitwise OR of what it saw.
\<close>

definition FindSetBits_apply :: "('p, 'm::len word) MaskedImage \<Rightarrow> 'm word" where
  "FindSetBits_apply img = fold (\<lambda>p bits. bits OR maskPlane img p) (boxPixels (bbox img)) 0"

text \<open>
  Modelled from the spec: the mask-plane registry maps a named mask-plane string to its
  bit position; unknown names fail with an exception. The registry is a parameter.
\<close>

definition getPlaneBitMask :: "(string \<rightharpoonup> nat) \<Rightarrow> string \<Rightarrow> pexExcept + 'm::len word" where
  "getPlaneBitMask registry name =
     (case registry name of None \<Rightarrow> Inl InvalidParameterError | Some b \<Rightarrow> Inr (push_bit b 1))"

subsection \<open>Configuration\<close>

text \<open>
  The named options the policy supplies, one field for each lookup the code makes
  (\<^verbatim>\<open>_policy.getInt("fpNpixMax")\<close> is \<open>getInt_fpNpixMax (policy st)\<close>). A C++
  \<^verbatim>\<open>int\<close> is a 32-bit word, read by \<open>sint\<close>.
\<close>

record Policy =
  getStringArray_badMaskPlanes :: "string list"
  getInt_fpNpixMin :: "32 word"
  getInt_fpNpixMax :: "32 word"
  getInt_fpGrowPix :: "32 word"
  getBool_detOnTemplate :: bool
  getDouble_detThreshold :: real
  getString_detThresholdType :: string

datatype Threshold = createThreshold real string

section \<open>KernelCandidateDetection\<close>

record 'm KernelCandidateDetection =
  policy :: Policy
  badBitMask :: "'m"
  footprints :: "Footprint list"

subsection \<open>The constructor\<close>

text \<open>
  The loop over \<^verbatim>\<open>detBadMaskPlanes\<close>: each name's bit mask is ORed into the bad-bit
  mask inside a try block whose handler only logs.
\<close>

fun badBitMaskLoop ::
  "(string \<rightharpoonup> nat) \<Rightarrow> 'm::len word \<Rightarrow> string list \<Rightarrow> pexExcept + 'm word" where
  "badBitMaskLoop registry bits [] = Inr bits"
| "badBitMaskLoop registry bits (mi # rest) =
     (case try_catch
             (case getPlaneBitMask registry mi of
                Inl e \<Rightarrow> Inl e
              | Inr m \<Rightarrow> Inr (bits OR m))
             (\<lambda>e. Inr bits)
      of Inl e \<Rightarrow> Inl e
       | Inr bits' \<Rightarrow> badBitMaskLoop registry bits' rest)"

definition newKernelCandidateDetection ::
  "(string \<rightharpoonup> nat) \<Rightarrow> Policy \<Rightarrow> pexExcept + 'm::len word KernelCandidateDetection" where
  "newKernelCandidateDetection registry pol =
     (case badBitMaskLoop registry 0 (getStringArray_badMaskPlanes pol) of
        Inl e \<Rightarrow> Inl e
      | Inr bits \<Rightarrow> Inr \<lparr>policy = pol, badBitMask = bits, footprints = []\<rparr>)"

subsection \<open>growCandidate\<close>

text \<open>\<^verbatim>\<open>static_cast<std::size_t>(i)\<close> of a C++ \<^verbatim>\<open>int\<close>, on a 64-bit \<^verbatim>\<open>size_t\<close>.\<close>

definition size_t_of_int :: "32 word \<Rightarrow> nat" where
  "size_t_of_int i = nat (sint i mod 2 ^ 64)"

text \<open>
  \<^verbatim>\<open>int(0.5 * (a + b))\<close> on two C++ \<^verbatim>\<open>int\<close>s: the sum is a 32-bit addition
  (a signed overflow, which C++ leaves undefined, is taken to wrap around as the hardware
  does), the sum is halved exactly in double precision, and the conversion to
  \<^verbatim>\<open>int\<close> truncates towards zero.
\<close>

definition halfSum :: "int \<Rightarrow> int \<Rightarrow> int" where
  "halfSum a b =
     (let s = sint (word_of_int a + word_of_int b :: 32 word)
      in if s < 0 then - ((- s) div 2) else s div 2)"

text \<open>Failure condition 1: the footprint has too many pixels.\<close>

definition tooManyPix :: "'m KernelCandidateDetection \<Rightarrow> Footprint \<Rightarrow> bool" where
  "tooManyPix st fp = (size_t_of_int (getInt_fpNpixMax (policy st)) < getArea fp)"

text \<open>The core of an oversized footprint: the single pixel \<open>(xc, yc)\<close>.\<close>

definition fpCore :: "Footprint \<Rightarrow> Footprint" where
  "fpCore fp =
     (let fpBBox = getBBox fp;
          xc = halfSum (getMinX fpBBox) (getMaxX fpBBox);
          yc = halfSum (getMinY fpBBox) (getMaxY fpBBox)
      in Footprint (spanSetOfBox \<lparr>minimum = (xc, yc), dimensions = (1, 1)\<rparr>))"

text \<open>
  The grown footprint:
  \<^verbatim>\<open>std::make_shared<afwDetect::Footprint>(fp->getSpans()->dilated(fpGrowPix,
  afwGeom::Stencil::MANHATTAN))\<close>.
\<close>

definition grownFootprint :: "Footprint \<Rightarrow> int \<Rightarrow> Footprint" where
  "grownFootprint fp fpGrowPix = Footprint (dilated (getSpans fp) fpGrowPix)"

text \<open>
  The rest of \<^verbatim>\<open>growCandidate\<close>, after failure condition 1: grow the footprint, check
  that it is on the template image, grab the two subimages and search their masks. The
  result is what the call returns or raises, and the object after the call.
\<close>

definition growBody ::
  "'m::len word KernelCandidateDetection \<Rightarrow> Footprint \<Rightarrow> int \<Rightarrow>
   ('p, 'm word) MaskedImage \<Rightarrow> ('p, 'm word) MaskedImage \<Rightarrow>
   (pexExcept + bool) \<times> 'm word KernelCandidateDetection" where
  "growBody st fp fpGrowPix templateMaskedImage scienceMaskedImage =
     (let fpGrow = grownFootprint fp fpGrowPix;
          fpGrowBBox = getBBox fpGrow
      in if \<not> contains (bbox templateMaskedImage) fpGrowBBox then (Inr False, st)
         else
           case try_catch
                  (case subimage templateMaskedImage fpGrowBBox of
                     Inl e \<Rightarrow> Inl e
                   | Inr templateSubimage \<Rightarrow>
                       (case subimage scienceMaskedImage fpGrowBBox of
                          Inl e \<Rightarrow> Inl e
                        | Inr scienceSubimage \<Rightarrow>
                            Inr ((FindSetBits_apply templateSubimage AND badBitMask st \<noteq> 0)
                                 \<or> (FindSetBits_apply scienceSubimage AND badBitMask st \<noteq> 0))))
                  (\<lambda>e. Inr True)
           of Inl e \<Rightarrow> (Inl e, st)
            | Inr subimageHasFailed \<Rightarrow>
                if subimageHasFailed then (Inr False, st)
                else (Inr True, st\<lparr>footprints := footprints st @ [fpGrow]\<rparr>))"

text \<open>
  \<^verbatim>\<open>growCandidate\<close> calls itself on the core of an oversized footprint; a call that never
  returns has the value \<open>None\<close>.
\<close>

partial_function (option) growCandidate ::
  "'m::len word KernelCandidateDetection \<Rightarrow> Footprint \<Rightarrow> int \<Rightarrow>
   ('p, 'm word) MaskedImage \<Rightarrow> ('p, 'm word) MaskedImage \<Rightarrow>
   ((pexExcept + bool) \<times> 'm word KernelCandidateDetection) option" where
  "growCandidate st fp fpGrowPix templateMaskedImage scienceMaskedImage =
     (if tooManyPix st fp
      then growCandidate st (fpCore fp) fpGrowPix templateMaskedImage scienceMaskedImage
      else Some (growBody st fp fpGrowPix templateMaskedImage scienceMaskedImage))"


subsection \<open>apply\<close>

text \<open>
  The loop of \<^verbatim>\<open>apply\<close> over the detected footprints; the value \<^verbatim>\<open>growCandidate\<close>
  returns is not looked at. An exception leaving \<^verbatim>\<open>growCandidate\<close> would leave the loop.
\<close>

fun growAll ::
  "'m::len word KernelCandidateDetection \<Rightarrow> Footprint list \<Rightarrow> int \<Rightarrow>
   ('p, 'm word) MaskedImage \<Rightarrow> ('p, 'm word) MaskedImage \<Rightarrow>
   ((pexExcept + unit) \<times> 'm word KernelCandidateDetection) option" where
  "growAll st [] fpGrowPix templateMaskedImage scienceMaskedImage = Some (Inr (), st)"
| "growAll st (i # rest) fpGrowPix templateMaskedImage scienceMaskedImage =
     (case growCandidate st i fpGrowPix templateMaskedImage scienceMaskedImage of
        None \<Rightarrow> None
      | Some (Inl e, st') \<Rightarrow> Some (Inl e, st')
      | Some (Inr accepted, st') \<Rightarrow>
          growAll st' rest fpGrowPix templateMaskedImage scienceMaskedImage)"

text \<open>
  How many of the calls of the loop returned true: the candidates accepted in the pass.
\<close>

fun acceptedCount ::
  "'m::len word KernelCandidateDetection \<Rightarrow> Footprint list \<Rightarrow> int \<Rightarrow>
   ('p, 'm word) MaskedImage \<Rightarrow> ('p, 'm word) MaskedImage \<Rightarrow> nat option" where
  "acceptedCount st [] fpGrowPix templateMaskedImage scienceMaskedImage = Some 0"
| "acceptedCount st (i # rest) fpGrowPix templateMaskedImage scienceMaskedImage =
     (case growCandidate st i fpGrowPix templateMaskedImage scienceMaskedImage of
        None \<Rightarrow> None
      | Some (Inl e, st') \<Rightarrow> None
      | Some (Inr accepted, st') \<Rightarrow>
          (case acceptedCount st' rest fpGrowPix templateMaskedImage scienceMaskedImage of
             None \<Rightarrow> None
           | Some n \<Rightarrow> Some (if accepted then Suc n else n)))"

text \<open>
  The footprints the detector finds: \<^verbatim>\<open>afwDetect::FootprintSet(image, threshold, "",
  fpNpixMin).getFootprints()\<close> on the template or on the science image. The detector is a
  collaborator and a parameter here.
\<close>

definition detectedFootprints ::
  "(('p, 'm word) MaskedImage \<Rightarrow> Threshold \<Rightarrow> int \<Rightarrow> Footprint list) \<Rightarrow>
   'm word KernelCandidateDetection \<Rightarrow> ('p, 'm word) MaskedImage \<Rightarrow> ('p, 'm word) MaskedImage \<Rightarrow>
   Footprint list" where
  "detectedFootprints footprintSet st templateMaskedImage scienceMaskedImage =
     (let fpNpixMin = sint (getInt_fpNpixMin (policy st));
          threshold = createThreshold (getDouble_detThreshold (policy st))
                        (getString_detThresholdType (policy st))
      in if getBool_detOnTemplate (policy st) = True
         then footprintSet templateMaskedImage threshold fpNpixMin
         else footprintSet scienceMaskedImage threshold fpNpixMin)"

definition apply_pass ::
  "(('p, 'm word) MaskedImage \<Rightarrow> Threshold \<Rightarrow> int \<Rightarrow> Footprint list) \<Rightarrow>
   'm::len word KernelCandidateDetection \<Rightarrow> ('p, 'm word) MaskedImage \<Rightarrow> ('p, 'm word) MaskedImage \<Rightarrow>
   ((pexExcept + unit) \<times> 'm word KernelCandidateDetection) option" where
  "apply_pass footprintSet st templateMaskedImage scienceMaskedImage =
     (let fpGrowPix = sint (getInt_fpGrowPix (policy st));
          st0 = st\<lparr>footprints := []\<rparr>;
          footprintListIn =
            detectedFootprints footprintSet st templateMaskedImage scienceMaskedImage
      in case growAll st0 footprintListIn fpGrowPix templateMaskedImage scienceMaskedImage of
           None \<Rightarrow> None
         | Some (Inl e, st') \<Rightarrow> Some (Inl e, st')
         | Some (Inr u, st') \<Rightarrow>
             if length (footprints st') = 0
             then Some (Inl (Exception ''Unable to find any footprints for Psf matching''), st')
             else Some (Inr (), st'))"

text \<open>
  The region a call of \<^verbatim>\<open>growCandidate\<close> grows: the footprint it is given, or the
  core of an oversized one.
\<close>

definition candidateRegion :: "'m KernelCandidateDetection \<Rightarrow> Footprint \<Rightarrow> Footprint" where
  "candidateRegion st fp = (if tooManyPix st fp then fpCore fp else fp)"

section \<open>Example inputs\<close>

text \<open>
  A registry of three mask planes, a policy that names an unknown plane among its bad mask
  planes, an 8 by 8 image with no mask bit set and one with the bit of plane 1 set at
  pixel (4, 4), a detector that finds a footprint in the corner and one inside, and a
  footprint of six pixels near the origin.
\<close>

definition exampleRegistry :: "string \<rightharpoonup> nat" where
  "exampleRegistry = [''BAD'' \<mapsto> 0, ''SAT'' \<mapsto> 1, ''INTRP'' \<mapsto> 2]"

definition examplePolicy :: Policy where
  "examplePolicy =
     \<lparr>getStringArray_badMaskPlanes = [''BAD'', ''NOSUCH'', ''SAT''],
      getInt_fpNpixMin = 1, getInt_fpNpixMax = 4, getInt_fpGrowPix = 1,
      getBool_detOnTemplate = True, getDouble_detThreshold = 10,
      getString_detThresholdType = ''value''\<rparr>"

definition exampleDetection :: "16 word KernelCandidateDetection" where
  "exampleDetection = \<lparr>policy = examplePolicy, badBitMask = 3, footprints = []\<rparr>"

definition cleanImage :: "(unit, 16 word) MaskedImage" where
  "cleanImage =
     \<lparr>bbox = \<lparr>minimum = (0, 0), dimensions = (8, 8)\<rparr>,
      imagePlane = (\<lambda>p. ()), maskPlane = (\<lambda>p. 0)\<rparr>"

definition maskedImage :: "(unit, 16 word) MaskedImage" where
  "maskedImage =
     \<lparr>bbox = \<lparr>minimum = (0, 0), dimensions = (8, 8)\<rparr>,
      imagePlane = (\<lambda>p. ()), maskPlane = (\<lambda>p. if p = (4, 4) then 2 else 0)\<rparr>"

definition exampleFootprintSet ::
  "(unit, 16 word) MaskedImage \<Rightarrow> Threshold \<Rightarrow> int \<Rightarrow> Footprint list" where
  "exampleFootprintSet img threshold npixMin = [Footprint [(0, 0)], Footprint [(3, 3)]]"



section \<open>Lemmas about the collaborators\<close>

lemma or_and_eq_0_iff:
  "((a OR b) AND c = 0) \<longleftrightarrow> (a AND c = 0 \<and> b AND c = 0)" for a :: "'a::len word"
  by (simp add: bit.conj_disj_distrib2 or_eq_0_iff)

lemma FindSetBits_fold:
  "(fold (\<lambda>p bits. bits OR f p) ps acc AND bad \<noteq> 0) \<longleftrightarrow>
   (acc AND bad \<noteq> 0 \<or> (\<exists>p\<in>set ps. f p AND bad \<noteq> 0))" for acc :: "'a::len word"
  by (induction ps arbitrary: acc) (auto simp: or_and_eq_0_iff)

lemma FindSetBits_apply_iff:
  "(FindSetBits_apply img AND bad \<noteq> 0) \<longleftrightarrow>
   (\<exists>p\<in>set (boxPixels (bbox img)). maskPlane img p AND bad \<noteq> 0)"
  by (simp add: FindSetBits_apply_def FindSetBits_fold)

text \<open>The diamond of radius \<open>r\<close> is the L1 ball, and dilation adds its offsets.\<close>

lemma set_manhattanOffsets:
  "set (manhattanOffsets r) = {(dx, dy). \<bar>dx\<bar> + \<bar>dy\<bar> \<le> r}"
proof (rule set_eqI)
  fix p :: Point2I
  obtain dx dy where p: "p = (dx, dy)" by (cases p)
  have "p \<in> set (manhattanOffsets r) \<longleftrightarrow> dy \<in> {- r..r} \<and> dx \<in> {- (r - \<bar>dy\<bar>)..r - \<bar>dy\<bar>}"
    unfolding p manhattanOffsets_def by (auto simp: image_iff)
  also have "\<dots> \<longleftrightarrow> \<bar>dx\<bar> + \<bar>dy\<bar> \<le> r" by auto
  finally show "p \<in> set (manhattanOffsets r) \<longleftrightarrow> p \<in> {(dx, dy). \<bar>dx\<bar> + \<bar>dy\<bar> \<le> r}"
    using p by simp
qed

lemma set_dilated:
  "set (dilated ps r) =
     {(x + dx, y + dy) | x y dx dy. (x, y) \<in> set ps \<and> \<bar>dx\<bar> + \<bar>dy\<bar> \<le> r}"
proof -
  have "set (dilated ps r) =
          (\<Union>(x, y)\<in>set ps. (\<lambda>(dx, dy). (x + dx, y + dy)) ` set (manhattanOffsets r))"
    by (fastforce simp: dilated_def)
  also have "\<dots> = {(x + dx, y + dy) | x y dx dy. (x, y) \<in> set ps \<and> \<bar>dx\<bar> + \<bar>dy\<bar> \<le> r}"
    unfolding set_manhattanOffsets by (auto simp: image_iff)
  finally show ?thesis .
qed

lemma dilated_superset: "0 \<le> r \<Longrightarrow> set ps \<subseteq> set (dilated ps r)"
proof
  fix p assume r: "0 \<le> r" and p: "p \<in> set ps"
  obtain x y where xy: "p = (x, y)" by (cases p)
  have "\<exists>x' y' dx dy. (x, y) = (x' + dx, y' + dy) \<and> (x', y') \<in> set ps \<and> \<bar>dx\<bar> + \<bar>dy\<bar> \<le> r"
    using p r xy by (intro exI [of _ x] exI [of _ y] exI [of _ 0]) simp
  then show "p \<in> set (dilated ps r)" unfolding set_dilated xy by simp
qed

lemma spanSetBBox_mono:
  assumes "set ps \<subseteq> set qs"
  shows "contains (spanSetBBox qs) (spanSetBBox ps)"
proof (cases "ps = []")
  case True
  then show ?thesis by (simp add: contains_def spanSetBBox_def isEmpty_def emptyBox2I_def)
next
  case False
  then have qs: "qs \<noteq> []" using assms by auto
  have fx: "fst ` set ps \<subseteq> fst ` set qs" and fy: "snd ` set ps \<subseteq> snd ` set qs"
    using assms by auto
  have nx: "fst ` set ps \<noteq> {}" and ny: "snd ` set ps \<noteq> {}" using False by auto
  have "Min (fst ` set qs) \<le> Min (fst ` set ps)" by (rule Min_antimono [OF fx nx]) simp
  moreover have "Min (snd ` set qs) \<le> Min (snd ` set ps)" by (rule Min_antimono [OF fy ny]) simp
  moreover have "Max (fst ` set ps) \<le> Max (fst ` set qs)" by (rule Max_mono [OF fx nx]) simp
  moreover have "Max (snd ` set ps) \<le> Max (snd ` set qs)" by (rule Max_mono [OF fy ny]) simp
  ultimately show ?thesis using False qs
    by (simp add: contains_def spanSetBBox_def Let_def getMinX_def getMinY_def getMaxX_def
        getMaxY_def)
qed

section \<open>Lemmas about the constructor\<close>

lemma badBitMaskLoop_bits:
  "\<exists>r. badBitMaskLoop registry bits names = Inr r \<and>
       (\<forall>k. bit r k \<longleftrightarrow>
              bit bits k \<or>
              (\<exists>name\<in>set names. \<exists>b. registry name = Some b \<and> bit (push_bit b 1 :: 'm word) k))"
  for bits :: "'m::len word"
proof (induction names arbitrary: bits)
  case Nil
  then show ?case by simp
next
  case (Cons mi rest)
  show ?case
  proof (cases "registry mi")
    case None
    then have "badBitMaskLoop registry bits (mi # rest) = badBitMaskLoop registry bits rest"
      by (simp add: try_catch_def getPlaneBitMask_def)
    with Cons.IH [of bits] None show ?thesis by auto
  next
    case (Some b)
    then have "badBitMaskLoop registry bits (mi # rest) =
               badBitMaskLoop registry (bits OR push_bit b 1) rest"
      by (simp add: try_catch_def getPlaneBitMask_def)
    with Cons.IH [of "bits OR push_bit b 1"] Some show ?thesis
      by (auto simp: bit_or_iff)
  qed
qed

lemma badBitMaskLoop_fold:
  "badBitMaskLoop registry bits names =
     Inr (fold (\<lambda>name acc. case registry name of None \<Rightarrow> acc | Some b \<Rightarrow> acc OR push_bit b 1)
            names bits)"
  by (induction names arbitrary: bits)
     (auto simp: try_catch_def getPlaneBitMask_def split: option.splits)

section \<open>Lemmas about growCandidate\<close>

lemma growCandidate_small:
  "\<not> tooManyPix st fp \<Longrightarrow> growCandidate st fp g T S = Some (growBody st fp g T S)"
  by (subst growCandidate.simps) simp

lemma growCandidate_big:
  "tooManyPix st fp \<Longrightarrow> growCandidate st fp g T S = growCandidate st (fpCore fp) g T S"
  by (subst growCandidate.simps) simp

lemma getSpans_fpCore:
  "getSpans (fpCore fp) =
     [(halfSum (getMinX (getBBox fp)) (getMaxX (getBBox fp)),
       halfSum (getMinY (getBBox fp)) (getMaxY (getBBox fp)))]"
  by (simp add: fpCore_def Let_def spanSetOfBox_def boxPixels_def getMinX_def getMaxX_def
      getMinY_def getMaxY_def)

lemma getArea_fpCore: "getArea (fpCore fp) = 1"
  by (simp add: getArea_def getSpans_fpCore)

lemma size_t_of_int_pos: "sint w \<noteq> 0 \<Longrightarrow> 1 \<le> size_t_of_int w"
proof -
  assume nz: "sint w \<noteq> 0"
  have lo: "- (2 ^ 31) \<le> sint w" using sint_ge [of w] by simp
  have hi: "sint w < 2 ^ 31" using sint_lt [of w] by simp
  show ?thesis
  proof (cases "0 \<le> sint w")
    case True
    then have "sint w mod 2 ^ 64 = sint w" using hi by (simp add: mod_pos_pos_trivial)
    then show ?thesis using True nz by (simp add: size_t_of_int_def)
  next
    case False
    have "(sint w + 2 ^ 64) mod 2 ^ 64 = sint w + 2 ^ 64"
      using lo False by (intro mod_pos_pos_trivial) simp_all
    then have "sint w mod 2 ^ 64 = sint w + 2 ^ 64" by simp
    then show ?thesis using lo by (simp add: size_t_of_int_def)
  qed
qed

lemma fpCore_not_tooManyPix:
  "sint (getInt_fpNpixMax (policy st)) \<noteq> 0 \<Longrightarrow> \<not> tooManyPix st (fpCore fp)"
  using size_t_of_int_pos [of "getInt_fpNpixMax (policy st)"]
  by (simp add: tooManyPix_def getArea_fpCore)











text \<open>What the rest of \<^verbatim>\<open>growCandidate\<close> returns, in one equation.\<close>

lemma growBody_eq:
  "growBody st fp g T S =
     (if contains (bbox T) (getBBox (grownFootprint fp g))
         \<and> contains (bbox S) (getBBox (grownFootprint fp g))
         \<and> (\<forall>p\<in>set (boxPixels (getBBox (grownFootprint fp g))).
               maskPlane T p AND badBitMask st = 0 \<and> maskPlane S p AND badBitMask st = 0)
      then (Inr True, st\<lparr>footprints := footprints st @ [grownFootprint fp g]\<rparr>)
      else (Inr False, st))"
  by (auto simp: growBody_def Let_def try_catch_def subimage_def FindSetBits_apply_iff
      split: sum.splits)

lemma growCandidate_total:
  assumes "sint (getInt_fpNpixMax (policy st)) \<noteq> 0"
  shows "growCandidate st fp g T S =
           Some (growBody st (if tooManyPix st fp then fpCore fp else fp) g T S)"
proof (cases "tooManyPix st fp")
  case True
  then show ?thesis
    using fpCore_not_tooManyPix [OF assms, of fp]
    by (simp add: growCandidate_big growCandidate_small)
next
  case False
  then show ?thesis by (simp add: growCandidate_small)
qed

text \<open>
  A call that returns has grown the footprint it was given or its core, and that region
  is not oversized.
\<close>

lemma tooManyPix_fpCore: "tooManyPix st (fpCore a) = tooManyPix st (fpCore b)"
  by (simp add: tooManyPix_def getArea_fpCore)

lemma growCandidate_result_candidate:
  assumes "growCandidate st fp g T S = Some r"
  shows "\<not> tooManyPix st (candidateRegion st fp) \<and> r = growBody st (candidateRegion st fp) g T S"
proof (rule growCandidate.raw_induct [OF _ assms])
  fix f and st :: "'a word KernelCandidateDetection" and fp g
    and T S :: "('b, 'a word) MaskedImage" and r
  assume IH: "\<And>st fp g T S r. f st fp g T S = Some r \<Longrightarrow>
      \<not> tooManyPix st (candidateRegion st fp) \<and> r = growBody st (candidateRegion st fp) g T S"
    and eq: "(if tooManyPix st fp then f st (fpCore fp) g T S
              else Some (growBody st fp g T S)) = Some r"
  show "\<not> tooManyPix st (candidateRegion st fp) \<and> r = growBody st (candidateRegion st fp) g T S"
  proof (cases "tooManyPix st fp")
    case True
    with eq have "f st (fpCore fp) g T S = Some r" by simp
    from IH [OF this] have c: "\<not> tooManyPix st (candidateRegion st (fpCore fp))"
      and r: "r = growBody st (candidateRegion st (fpCore fp)) g T S" by simp_all
    have small: "\<not> tooManyPix st (fpCore fp)"
      using c tooManyPix_fpCore [of st "fpCore fp" fp]
      by (auto simp: candidateRegion_def split: if_splits)
    then show ?thesis using True r by (simp add: candidateRegion_def)
  next
    case False
    with eq show ?thesis by (simp add: candidateRegion_def)
  qed
qed

lemma growCandidate_step:
  assumes "growCandidate st fp g T S = Some (r, st1)"
  shows "(r = Inr False \<and> st1 = st) \<or>
         (r = Inr True
          \<and> st1 = st\<lparr>footprints := footprints st @ [grownFootprint (candidateRegion st fp) g]\<rparr>
          \<and> contains (bbox T) (getBBox (grownFootprint (candidateRegion st fp) g))
          \<and> contains (bbox S) (getBBox (grownFootprint (candidateRegion st fp) g))
          \<and> (\<forall>p\<in>set (boxPixels (getBBox (grownFootprint (candidateRegion st fp) g))).
                maskPlane T p AND badBitMask st = 0 \<and> maskPlane S p AND badBitMask st = 0))"
  using growCandidate_result_candidate [OF assms]
  by (auto simp: growBody_eq split: if_splits)

lemma growAll_invariant:
  assumes "growAll st fps g T S = Some (r, st')"
    and "\<forall>fp\<in>set (footprints st). Q fp"
    and "\<And>raw. raw \<in> set fps \<Longrightarrow>
           contains (bbox T) (getBBox (grownFootprint (candidateRegion st raw) g)) \<Longrightarrow>
           contains (bbox S) (getBBox (grownFootprint (candidateRegion st raw) g)) \<Longrightarrow>
           (\<forall>p\<in>set (boxPixels (getBBox (grownFootprint (candidateRegion st raw) g))).
                maskPlane T p AND badBitMask st = 0 \<and> maskPlane S p AND badBitMask st = 0) \<Longrightarrow>
           Q (grownFootprint (candidateRegion st raw) g)"
  shows "r = Inr () \<and> policy st' = policy st \<and> badBitMask st' = badBitMask st
         \<and> (\<forall>fp\<in>set (footprints st'). Q fp)"
  using assms
proof (induction fps arbitrary: st)
  case Nil
  then show ?case by simp
next
  case (Cons i rest)
  from Cons.prems(1) obtain a st1 where
    gc: "growCandidate st i g T S = Some (a, st1)"
    by (auto split: option.splits)
  from growCandidate_step [OF gc] have a: "a = Inr False \<or> a = Inr True" by auto
  with Cons.prems(1) gc have rest: "growAll st1 rest g T S = Some (r, st')" by auto
  have same: "policy st1 = policy st \<and> badBitMask st1 = badBitMask st"
    using growCandidate_step [OF gc] by auto
  then have cand: "candidateRegion st1 = candidateRegion st"
    by (simp add: candidateRegion_def tooManyPix_def fun_eq_iff)
  have Q1: "\<forall>fp\<in>set (footprints st1). Q fp"
    using growCandidate_step [OF gc] Cons.prems(2) Cons.prems(3) [of i] by auto
  have "r = Inr () \<and> policy st' = policy st1 \<and> badBitMask st' = badBitMask st1
         \<and> (\<forall>fp\<in>set (footprints st'). Q fp)"
    using Cons.prems(3) by (intro Cons.IH [OF rest Q1]) (simp add: cand same)
  then show ?case using same by simp
qed

section \<open>Lemmas about apply\<close>

lemma growAll_acceptedCount:
  "acceptedCount st fps g T S = Some n \<Longrightarrow>
   \<exists>st'. growAll st fps g T S = Some (Inr (), st')
        \<and> length (footprints st') = length (footprints st) + n"
proof (induction fps arbitrary: st n)
  case Nil
  then show ?case by simp
next
  case (Cons i rest)
  from Cons.prems obtain a st1 m where
    gc: "growCandidate st i g T S = Some (Inr a, st1)"
    and m: "acceptedCount st1 rest g T S = Some m"
    and n: "n = (if a then Suc m else m)"
    by (auto split: option.splits sum.splits)
  from Cons.IH [OF m] obtain st' where
    r: "growAll st1 rest g T S = Some (Inr (), st')"
    and l: "length (footprints st') = length (footprints st1) + m" by blast
  have "length (footprints st1) = length (footprints st) + (if a then 1 else 0)"
    using growCandidate_step [OF gc] by auto
  with gc r l n show ?case by simp
qed

lemma growCandidate_no_raise:
  "growCandidate st fp g T S = Some (r, st1) \<Longrightarrow> \<exists>a. r = Inr a \<and> policy st1 = policy st"
  using growCandidate_step [of st fp g T S r st1] by auto

lemma acceptedCount_None:
  "acceptedCount st fps g T S = None \<Longrightarrow> growAll st fps g T S = None"
proof (induction fps arbitrary: st)
  case Nil
  then show ?case by simp
next
  case (Cons i rest)
  show ?case
  proof (cases "growCandidate st i g T S")
    case None
    then show ?thesis by simp
  next
    case (Some res)
    obtain r st1 where res: "res = (r, st1)" by (cases res)
    from growCandidate_no_raise [OF Some [unfolded res]] obtain a where a: "r = Inr a" by blast
    with Cons.prems Some res have "acceptedCount st1 rest g T S = None"
      by (auto split: option.splits)
    from Cons.IH [OF this] show ?thesis using Some res a by simp
  qed
qed

lemma acceptedCount_total:
  "sint (getInt_fpNpixMax (policy st)) \<noteq> 0 \<Longrightarrow> \<exists>n. acceptedCount st fps g T S = Some n"
proof (induction fps arbitrary: st)
  case Nil
  then show ?case by simp
next
  case (Cons i rest)
  obtain r st1 where gc: "growCandidate st i g T S = Some (r, st1)"
    using growCandidate_total [OF Cons.prems, of i g T S] by (metis surj_pair)
  from growCandidate_no_raise [OF gc] obtain a where a: "r = Inr a"
    and p: "policy st1 = policy st" by blast
  from Cons.IH [of st1] Cons.prems p obtain m where "acceptedCount st1 rest g T S = Some m"
    by auto
  with gc a show ?case by simp
qed

text \<open>The calls the pass makes on the example inputs.\<close>

lemma example_pass:
  "exampleDetection\<lparr>footprints := []\<rparr> = exampleDetection"
  "sint (getInt_fpGrowPix (policy exampleDetection)) = 1"
  "detectedFootprints exampleFootprintSet exampleDetection T S =
     [Footprint [(0, 0)], Footprint [(3, 3)]]"
  "growCandidate exampleDetection (Footprint [(0, 0)]) 1 cleanImage S =
     Some (Inr False, exampleDetection)"
  "growCandidate exampleDetection (Footprint [(3, 3)]) 1 cleanImage cleanImage =
     Some (Inr True, exampleDetection\<lparr>footprints := [grownFootprint (Footprint [(3, 3)]) 1]\<rparr>)"
  "growCandidate exampleDetection (Footprint [(3, 3)]) 1 cleanImage maskedImage =
     Some (Inr False, exampleDetection)"
proof -
  show "exampleDetection\<lparr>footprints := []\<rparr> = exampleDetection"
    by (simp add: exampleDetection_def)
  show "sint (getInt_fpGrowPix (policy exampleDetection)) = 1"
    by (simp add: exampleDetection_def examplePolicy_def)
  show "detectedFootprints exampleFootprintSet exampleDetection T S =
     [Footprint [(0, 0)], Footprint [(3, 3)]]"
    by (simp add: detectedFootprints_def exampleFootprintSet_def Let_def)
  have s0: "\<not> tooManyPix exampleDetection (Footprint [(0, 0)])" by code_simp
  have s3: "\<not> tooManyPix exampleDetection (Footprint [(3, 3)])" by code_simp
  have off: "\<not> contains (bbox cleanImage) (getBBox (grownFootprint (Footprint [(0, 0)]) 1))"
    by code_simp
  show "growCandidate exampleDetection (Footprint [(0, 0)]) 1 cleanImage S =
     Some (Inr False, exampleDetection)"
    using off by (simp add: growCandidate_small [OF s0] growBody_eq)
  have "growBody exampleDetection (Footprint [(3, 3)]) 1 cleanImage cleanImage =
     (Inr True, exampleDetection\<lparr>footprints := [grownFootprint (Footprint [(3, 3)]) 1]\<rparr>)"
    by code_simp
  then show "growCandidate exampleDetection (Footprint [(3, 3)]) 1 cleanImage cleanImage =
     Some (Inr True, exampleDetection\<lparr>footprints := [grownFootprint (Footprint [(3, 3)]) 1]\<rparr>)"
    by (simp add: growCandidate_small [OF s3])
  have "growBody exampleDetection (Footprint [(3, 3)]) 1 cleanImage maskedImage =
     (Inr False, exampleDetection)"
    by code_simp
  then show "growCandidate exampleDetection (Footprint [(3, 3)]) 1 cleanImage maskedImage =
     Some (Inr False, exampleDetection)"
    by (simp add: growCandidate_small [OF s3])
qed

section \<open>The default boundary style\<close>

text \<open>
  C1, as the spec states it: called without an explicit \<open>boundaryStyle\<close>, the boundary
  handling applied is TAPERED. The declaration says otherwise: a call that gives only
  width, height and order enters the body with a boundary style other than TAPERED.
\<close>

theorem default_boundaryStyle_not_TAPERED:
  "boundaryStyle (generateFiniteDifferenceRegularization_args 3 3 1 None None) \<noteq> TAPERED"
  by (simp add: generateFiniteDifferenceRegularization_args_def)

text \<open>
  C1, amended: called without an explicit \<open>boundaryStyle\<close>, whatever the other arguments,
  the boundary handling applied is WRAPPED (enumerator value 1), and an explicit boundary
  style is passed on unchanged.
\<close>

theorem default_boundaryStyle_WRAPPED:
  "boundaryStyle (generateFiniteDifferenceRegularization_args w h ord None ds) = WRAPPED
   \<and> BoundStyle_value
        (boundaryStyle (generateFiniteDifferenceRegularization_args w h ord None ds)) = 1
   \<and> boundaryStyle (generateFiniteDifferenceRegularization_args w h ord (Some b) ds) = b"
  by (simp add: generateFiniteDifferenceRegularization_args_def)

section \<open>The pass-level error of apply\<close>

text \<open>
  C2: for every pair of input images and every configuration, \<^verbatim>\<open>apply\<close> raises an
  error to the caller if and only if zero candidates were accepted after processing the
  full list of detected raw regions; when at least one candidate is accepted, it returns
  normally. "Accepted" is a call of \<^verbatim>\<open>growCandidate\<close> in the loop that returned true.
  The pass raises exactly when the loop ran through the whole list and no call returned
  true, returns normally exactly when it ran through and some call did, and the candidate
  list then holds as many footprints as calls returned true. The loop runs through the
  whole list in every configuration but \<^verbatim>\<open>fpNpixMax = 0\<close>, where a call on a
  non-empty footprint never returns; a pass that does not return neither raises nor
  accepts.
\<close>

theorem apply_raises_iff_no_candidate:
  "((\<exists>e st'. apply_pass footprintSet st T S = Some (Inl e, st')) \<longleftrightarrow>
      acceptedCount (st\<lparr>footprints := []\<rparr>) (detectedFootprints footprintSet st T S)
        (sint (getInt_fpGrowPix (policy st))) T S = Some 0)
   \<and> ((\<exists>st'. apply_pass footprintSet st T S = Some (Inr (), st')) \<longleftrightarrow>
      (\<exists>n. acceptedCount (st\<lparr>footprints := []\<rparr>) (detectedFootprints footprintSet st T S)
        (sint (getInt_fpGrowPix (policy st))) T S = Some (Suc n)))
   \<and> (apply_pass footprintSet st T S = None \<longleftrightarrow>
      acceptedCount (st\<lparr>footprints := []\<rparr>) (detectedFootprints footprintSet st T S)
        (sint (getInt_fpGrowPix (policy st))) T S = None)
   \<and> (\<forall>r st'. apply_pass footprintSet st T S = Some (r, st') \<longrightarrow>
        acceptedCount (st\<lparr>footprints := []\<rparr>) (detectedFootprints footprintSet st T S)
          (sint (getInt_fpGrowPix (policy st))) T S = Some (length (footprints st')))
   \<and> (sint (getInt_fpNpixMax (policy st)) \<noteq> 0 \<longrightarrow>
        apply_pass footprintSet st T S \<noteq> None)"
proof -
  let ?n = "acceptedCount (st\<lparr>footprints := []\<rparr>) (detectedFootprints footprintSet st T S)
        (sint (getInt_fpGrowPix (policy st))) T S"
  let ?g = "growAll (st\<lparr>footprints := []\<rparr>) (detectedFootprints footprintSet st T S)
        (sint (getInt_fpGrowPix (policy st))) T S"
  have tot: "?n \<noteq> None" if "sint (getInt_fpNpixMax (policy st)) \<noteq> 0"
    using acceptedCount_total [of "st\<lparr>footprints := []\<rparr>"] that by auto
  show ?thesis
  proof (cases ?n)
    case None
    from acceptedCount_None [OF this] have "apply_pass footprintSet st T S = None"
      by (simp add: apply_pass_def)
    with None tot show ?thesis by auto
  next
    case (Some n)
    from growAll_acceptedCount [OF this] obtain st' where
      g: "?g = Some (Inr (), st')" and l: "length (footprints st') = n" by auto
    have "apply_pass footprintSet st T S =
            Some (if n = 0 then Inl (Exception ''Unable to find any footprints for Psf matching'')
                  else Inr (), st')"
      using g l by (auto simp: apply_pass_def)
    with Some l show ?thesis by (cases n) auto
  qed
qed

text \<open>
  On the example inputs: with a clean science image the pass accepts one candidate and
  returns; with a masked pixel inside the only on-image candidate it accepts none and
  raises.
\<close>

theorem apply_raises_iff_no_candidate_witness:
  "sint (getInt_fpNpixMax (policy exampleDetection)) \<noteq> 0
   \<and> acceptedCount (exampleDetection\<lparr>footprints := []\<rparr>)
        (detectedFootprints exampleFootprintSet exampleDetection cleanImage maskedImage)
        (sint (getInt_fpGrowPix (policy exampleDetection))) cleanImage maskedImage = Some 0
   \<and> (\<exists>e st'. apply_pass exampleFootprintSet exampleDetection cleanImage maskedImage =
                  Some (Inl e, st'))
   \<and> acceptedCount (exampleDetection\<lparr>footprints := []\<rparr>)
        (detectedFootprints exampleFootprintSet exampleDetection cleanImage cleanImage)
        (sint (getInt_fpGrowPix (policy exampleDetection))) cleanImage cleanImage = Some (Suc 0)
   \<and> (\<exists>st'. apply_pass exampleFootprintSet exampleDetection cleanImage cleanImage =
                Some (Inr (), st'))"
proof -
  have h: "sint (getInt_fpNpixMax (policy exampleDetection)) \<noteq> 0"
    by (simp add: exampleDetection_def examplePolicy_def)
  have none: "acceptedCount (exampleDetection\<lparr>footprints := []\<rparr>)
        (detectedFootprints exampleFootprintSet exampleDetection cleanImage maskedImage)
        (sint (getInt_fpGrowPix (policy exampleDetection))) cleanImage maskedImage = Some 0"
    by (simp add: example_pass)
  have one: "acceptedCount (exampleDetection\<lparr>footprints := []\<rparr>)
        (detectedFootprints exampleFootprintSet exampleDetection cleanImage cleanImage)
        (sint (getInt_fpGrowPix (policy exampleDetection))) cleanImage cleanImage = Some (Suc 0)"
    by (simp add: example_pass)
  show ?thesis
    using h none one
      apply_raises_iff_no_candidate [of exampleFootprintSet exampleDetection cleanImage maskedImage]
      apply_raises_iff_no_candidate [of exampleFootprintSet exampleDetection cleanImage cleanImage]
    by blast
qed

section \<open>What growCandidate rejects\<close>

text \<open>
  C3: for every candidate whose grown bounding box lies inside the template image,
  \<^verbatim>\<open>growCandidate\<close> rejects the candidate (returns false) if and only if sub-image
  extraction from either image raises an error, or some pixel of the template sub-image's
  mask ANDed with the bad-bit mask is nonzero, or some pixel of the science sub-image's
  mask ANDed with the bad-bit mask is nonzero; contamination in either image alone
  suffices. The candidate is the footprint the call grows, one that is not oversized.
\<close>

theorem growCandidate_rejects_iff:
  assumes "\<not> tooManyPix st fp"
    and "contains (bbox T) (getBBox (grownFootprint fp g))"
  shows "\<exists>accepted.
     growCandidate st fp g T S =
       Some (Inr accepted,
             if accepted then st\<lparr>footprints := footprints st @ [grownFootprint fp g]\<rparr> else st)
     \<and> (\<not> accepted \<longleftrightarrow>
          (case subimage T (getBBox (grownFootprint fp g)) of
             Inl e \<Rightarrow> True
           | Inr templateSubimage \<Rightarrow>
               \<exists>p\<in>set (boxPixels (bbox templateSubimage)).
                 maskPlane templateSubimage p AND badBitMask st \<noteq> 0)
          \<or> (case subimage S (getBBox (grownFootprint fp g)) of
                Inl e \<Rightarrow> True
              | Inr scienceSubimage \<Rightarrow>
                  \<exists>p\<in>set (boxPixels (bbox scienceSubimage)).
                    maskPlane scienceSubimage p AND badBitMask st \<noteq> 0))"
  using assms
  by (auto simp: growCandidate_small growBody_eq subimage_def)

text \<open>
  On the example inputs: the candidate around (3, 3) is rejected when only the science
  image has a masked pixel in its box, and accepted when both images are clean.
\<close>

theorem growCandidate_rejects_iff_witness:
  "\<not> tooManyPix exampleDetection (Footprint [(3, 3)])
   \<and> contains (bbox cleanImage) (getBBox (grownFootprint (Footprint [(3, 3)]) 1))
   \<and> growCandidate exampleDetection (Footprint [(3, 3)]) 1 cleanImage maskedImage =
       Some (Inr False, exampleDetection)
   \<and> growCandidate exampleDetection (Footprint [(3, 3)]) 1 cleanImage cleanImage =
       Some (Inr True,
             exampleDetection\<lparr>footprints := [grownFootprint (Footprint [(3, 3)]) 1]\<rparr>)"
proof -
  have h1: "\<not> tooManyPix exampleDetection (Footprint [(3, 3)])" by code_simp
  have h2: "contains (bbox cleanImage) (getBBox (grownFootprint (Footprint [(3, 3)]) 1))"
    by code_simp
  have bad: "(case subimage cleanImage (getBBox (grownFootprint (Footprint [(3, 3)]) 1)) of
             Inl e \<Rightarrow> True
           | Inr templateSubimage \<Rightarrow>
               \<exists>p\<in>set (boxPixels (bbox templateSubimage)).
                 maskPlane templateSubimage p AND badBitMask exampleDetection \<noteq> 0)
          \<or> (case subimage maskedImage (getBBox (grownFootprint (Footprint [(3, 3)]) 1)) of
                Inl e \<Rightarrow> True
              | Inr scienceSubimage \<Rightarrow>
                  \<exists>p\<in>set (boxPixels (bbox scienceSubimage)).
                    maskPlane scienceSubimage p AND badBitMask exampleDetection \<noteq> 0)"
    by code_simp
  have good: "\<not> ((case subimage cleanImage (getBBox (grownFootprint (Footprint [(3, 3)]) 1)) of
             Inl e \<Rightarrow> True
           | Inr templateSubimage \<Rightarrow>
               \<exists>p\<in>set (boxPixels (bbox templateSubimage)).
                 maskPlane templateSubimage p AND badBitMask exampleDetection \<noteq> 0)
          \<or> (case subimage cleanImage (getBBox (grownFootprint (Footprint [(3, 3)]) 1)) of
                Inl e \<Rightarrow> True
              | Inr scienceSubimage \<Rightarrow>
                  \<exists>p\<in>set (boxPixels (bbox scienceSubimage)).
                    maskPlane scienceSubimage p AND badBitMask exampleDetection \<noteq> 0))"
    by code_simp
  have e: "footprints exampleDetection = []" by (simp add: exampleDetection_def)
  show ?thesis
    using h1 h2 bad good e growCandidate_rejects_iff [OF h1 h2, of maskedImage]
      growCandidate_rejects_iff [OF h1 h2, of cleanImage]
    by (auto split: if_splits)
qed

text \<open>
  C4: for every not-oversized raw region, \<^verbatim>\<open>growCandidate\<close> returns false (rejects,
  without raising and without reaching the contamination check) whenever the grown
  region's bounding box is not fully contained in the template image's bounding box. The
  result is the same whatever the masks of the template and whatever the science image.
\<close>

theorem growCandidate_off_template:
  assumes "\<not> tooManyPix st fp"
    and "\<not> contains (bbox T) (getBBox (grownFootprint fp g))"
  shows "growCandidate st fp g T S = Some (Inr False, st)
       \<and> (\<forall>m S'. growCandidate st fp g (T\<lparr>maskPlane := m\<rparr>) S' = Some (Inr False, st))"
  using assms by (simp add: growCandidate_small growBody_eq)

text \<open>On the example inputs: the footprint in the corner (0, 0) grows off the image.\<close>

theorem growCandidate_off_template_witness:
  "\<not> tooManyPix exampleDetection (Footprint [(0, 0)])
   \<and> \<not> contains (bbox maskedImage) (getBBox (grownFootprint (Footprint [(0, 0)]) 1))
   \<and> growCandidate exampleDetection (Footprint [(0, 0)]) 1 maskedImage cleanImage =
       Some (Inr False, exampleDetection)"
proof -
  have h1: "\<not> tooManyPix exampleDetection (Footprint [(0, 0)])" by code_simp
  have h2: "\<not> contains (bbox maskedImage) (getBBox (grownFootprint (Footprint [(0, 0)]) 1))"
    by code_simp
  show ?thesis
    using h1 h2 growCandidate_off_template [OF h1 h2, of cleanImage] by simp
qed

section \<open>The oversize guard\<close>




section \<open>Region growth\<close>

text \<open>
  C6: region growth is monotonic: for every region and every non-negative grow margin,
  the bounding box of the region dilated by that margin under the Manhattan (L1) stencil
  contains the original region's bounding box.
\<close>

theorem grown_bbox_contains_raw_bbox:
  "0 \<le> fpGrowPix \<Longrightarrow> contains (getBBox (grownFootprint fp fpGrowPix)) (getBBox fp)"
  by (simp add: getBBox_def grownFootprint_def spanSetBBox_mono dilated_superset)

text \<open>On two pixels in a row, grown by one pixel.\<close>

theorem grown_bbox_contains_raw_bbox_witness:
  "(0::int) \<le> 1
   \<and> getBBox (Footprint [(3, 3), (4, 3)]) = \<lparr>minimum = (3, 3), dimensions = (2, 1)\<rparr>
   \<and> getBBox (grownFootprint (Footprint [(3, 3), (4, 3)]) 1) = \<lparr>minimum = (2, 2), dimensions = (4, 3)\<rparr>
   \<and> contains \<lparr>minimum = (2, 2), dimensions = (4, 3)\<rparr> \<lparr>minimum = (3, 3), dimensions = (2, 1)\<rparr>"
proof -
  have h: "(0::int) \<le> 1" by simp
  have b1: "getBBox (Footprint [(3, 3), (4, 3)]) = \<lparr>minimum = (3, 3), dimensions = (2, 1)\<rparr>"
    by code_simp
  have b2: "getBBox (grownFootprint (Footprint [(3, 3), (4, 3)]) 1) = \<lparr>minimum = (2, 2), dimensions = (4, 3)\<rparr>"
    by code_simp
  show ?thesis
    using h b1 b2 grown_bbox_contains_raw_bbox [OF h, of "Footprint [(3, 3), (4, 3)]"] by simp
qed

section \<open>The candidate list\<close>

text \<open>
  C7: the candidate-list invariant: after every \<^verbatim>\<open>apply\<close> pass, every member of the
  candidate list is a grown region whose bounding box lies fully inside both the template
  and the science image, and neither image's masked sub-region over that bounding box
  intersected the bad-bit mask. Each member is the dilation, by the configured margin, of
  a detected footprint or of the core of an oversized one. The invariant holds whether
  the pass returns or raises.
\<close>

theorem candidate_list_invariant:
  assumes "apply_pass footprintSet st T S = Some (r, st')"
  shows "\<forall>fp\<in>set (footprints st').
           (\<exists>raw\<in>set (detectedFootprints footprintSet st T S).
               fp = grownFootprint (candidateRegion st raw) (sint (getInt_fpGrowPix (policy st))))
           \<and> contains (bbox T) (getBBox fp) \<and> contains (bbox S) (getBBox fp)
           \<and> (\<forall>p\<in>set (boxPixels (getBBox fp)).
                 maskPlane T p AND badBitMask st = 0 \<and> maskPlane S p AND badBitMask st = 0)"
proof -
  let ?st0 = "st\<lparr>footprints := []\<rparr>"
  let ?fps = "detectedFootprints footprintSet st T S"
  let ?g = "sint (getInt_fpGrowPix (policy st))"
  let ?Q = "\<lambda>fp. (\<exists>raw\<in>set ?fps. fp = grownFootprint (candidateRegion st raw) ?g)
           \<and> contains (bbox T) (getBBox fp) \<and> contains (bbox S) (getBBox fp)
           \<and> (\<forall>p\<in>set (boxPixels (getBBox fp)).
                 maskPlane T p AND badBitMask st = 0 \<and> maskPlane S p AND badBitMask st = 0)"
  from assms obtain r0 where g: "growAll ?st0 ?fps ?g T S = Some (r0, st')"
    by (auto simp: apply_pass_def Let_def split: option.splits sum.splits if_splits)
  have cand: "candidateRegion ?st0 = candidateRegion st"
    by (simp add: candidateRegion_def tooManyPix_def fun_eq_iff)
  have "r0 = Inr () \<and> policy st' = policy ?st0 \<and> badBitMask st' = badBitMask ?st0
         \<and> (\<forall>fp\<in>set (footprints st'). ?Q fp)"
    by (rule growAll_invariant [OF g]) (auto simp: cand)
  then show ?thesis by simp
qed

text \<open>On the example inputs: the one candidate of the pass over two clean images.\<close>

theorem candidate_list_invariant_witness:
  "apply_pass exampleFootprintSet exampleDetection cleanImage cleanImage =
     Some (Inr (), exampleDetection\<lparr>footprints := [grownFootprint (Footprint [(3, 3)]) 1]\<rparr>)
   \<and> contains (bbox cleanImage) (getBBox (grownFootprint (Footprint [(3, 3)]) 1))
   \<and> \<not> (\<exists>p\<in>set (boxPixels (getBBox (grownFootprint (Footprint [(3, 3)]) 1))).
           maskPlane cleanImage p AND badBitMask exampleDetection \<noteq> 0)"
proof -
  have a: "apply_pass exampleFootprintSet exampleDetection cleanImage cleanImage =
     Some (Inr (), exampleDetection\<lparr>footprints := [grownFootprint (Footprint [(3, 3)]) 1]\<rparr>)"
    by (simp add: apply_pass_def example_pass)
  show ?thesis
    using a candidate_list_invariant [OF a] by simp
qed

section \<open>The bad-bit mask\<close>

text \<open>
  C8: for every configured list of bad mask-plane names, an unknown name is recovered
  locally: its bit is simply omitted from the bad-bit mask, no error propagates to the
  caller of the constructor, and the resulting bad-bit mask is the bitwise OR of the bit
  masks of exactly the recognized names. The constructor returns an object, never an
  exception; a bit of its bad-bit mask is set exactly when it is set in the bit mask of
  a name of the list that the registry knows.
\<close>

theorem constructor_badBitMask:
  "\<exists>st. (newKernelCandidateDetection registry pol :: pexExcept + 'm::len word KernelCandidateDetection) = Inr st
      \<and> policy st = pol \<and> footprints st = []
      \<and> badBitMask st =
          fold (\<lambda>name acc. acc OR push_bit (the (registry name)) 1)
            (filter (\<lambda>name. registry name \<noteq> None) (getStringArray_badMaskPlanes pol)) 0
      \<and> (\<forall>k. bit (badBitMask st) k \<longleftrightarrow>
            (\<exists>name\<in>set (getStringArray_badMaskPlanes pol).
               \<exists>b. registry name = Some b \<and> bit (push_bit b 1 :: 'm word) k))"
proof -
  have fold_filter:
    "fold (\<lambda>name acc. case registry name of None \<Rightarrow> acc | Some b \<Rightarrow> acc OR push_bit b 1) names bits =
     fold (\<lambda>name acc. acc OR push_bit (the (registry name)) 1)
       (filter (\<lambda>name. registry name \<noteq> None) names) bits"
    for names and bits :: "'m word"
    by (induction names arbitrary: bits) (auto split: option.splits)
  obtain r :: "'m word" where r: "badBitMaskLoop registry 0 (getStringArray_badMaskPlanes pol) = Inr r"
    and bits: "\<forall>k. bit r k \<longleftrightarrow> bit (0 :: 'm word) k \<or>
              (\<exists>name\<in>set (getStringArray_badMaskPlanes pol). \<exists>b. registry name = Some b \<and> bit (push_bit b 1 :: 'm word) k)"
    using badBitMaskLoop_bits [of registry 0 "getStringArray_badMaskPlanes pol"] by blast
  have "r = fold (\<lambda>name acc. acc OR push_bit (the (registry name)) 1)
            (filter (\<lambda>name. registry name \<noteq> None) (getStringArray_badMaskPlanes pol)) 0"
    using r by (simp add: badBitMaskLoop_fold fold_filter)
  then show ?thesis using r bits
    by (simp add: newKernelCandidateDetection_def)
qed

text \<open>
  On the example inputs: of the names BAD, NOSUCH and SAT the registry knows the first
  and the last, planes 0 and 1, and the bad-bit mask is 3.
\<close>

theorem constructor_badBitMask_witness:
  "\<exists>st. (newKernelCandidateDetection exampleRegistry examplePolicy
            :: pexExcept + 16 word KernelCandidateDetection) = Inr st
      \<and> badBitMask st = 3 \<and> bit (badBitMask st) 1 \<and> \<not> bit (badBitMask st) 2"
proof -
  from constructor_badBitMask [of exampleRegistry examplePolicy]
  obtain st :: "16 word KernelCandidateDetection" where
    st: "newKernelCandidateDetection exampleRegistry examplePolicy = Inr st"
    and m: "badBitMask st =
          fold (\<lambda>name acc. acc OR push_bit (the (exampleRegistry name)) 1)
            (filter (\<lambda>name. exampleRegistry name \<noteq> None)
               (getStringArray_badMaskPlanes examplePolicy)) 0"
    by blast
  have "badBitMask st = 3"
    unfolding m by (simp add: exampleRegistry_def examplePolicy_def)
  then show ?thesis using st by simp
qed

section \<open>The frame of growCandidate\<close>

text \<open>
  C10: the frame property of \<^verbatim>\<open>growCandidate\<close>, oversize-core recursion aside: on
  every rejection path (bounds failure, extraction exception, mask contamination) it
  returns false and leaves the candidate list unchanged; on acceptance it returns true
  and appends exactly one element, the grown footprint, to the end of the candidate
  list, modifying nothing else. The call accepts when the grown box is inside both images
  and no pixel of either mask over it meets the bad-bit mask, and rejects otherwise.
\<close>

theorem growCandidate_frame:
  assumes "\<not> tooManyPix st fp"
  shows "(growCandidate st fp g T S = Some (Inr False, st)
          \<or> growCandidate st fp g T S =
              Some (Inr True, st\<lparr>footprints := footprints st @ [grownFootprint fp g]\<rparr>))
       \<and> (\<not> contains (bbox T) (getBBox (grownFootprint fp g)) \<longrightarrow>
            growCandidate st fp g T S = Some (Inr False, st))
       \<and> ((\<exists>e. subimage T (getBBox (grownFootprint fp g)) = Inl e)
            \<or> (\<exists>e. subimage S (getBBox (grownFootprint fp g)) = Inl e) \<longrightarrow>
            growCandidate st fp g T S = Some (Inr False, st))
       \<and> ((\<exists>p\<in>set (boxPixels (getBBox (grownFootprint fp g))).
              maskPlane T p AND badBitMask st \<noteq> 0 \<or> maskPlane S p AND badBitMask st \<noteq> 0) \<longrightarrow>
            growCandidate st fp g T S = Some (Inr False, st))
       \<and> (contains (bbox T) (getBBox (grownFootprint fp g))
            \<and> contains (bbox S) (getBBox (grownFootprint fp g))
            \<and> (\<forall>p\<in>set (boxPixels (getBBox (grownFootprint fp g))).
                  maskPlane T p AND badBitMask st = 0 \<and> maskPlane S p AND badBitMask st = 0) \<longrightarrow>
            growCandidate st fp g T S =
              Some (Inr True, st\<lparr>footprints := footprints st @ [grownFootprint fp g]\<rparr>))
       \<and> (\<forall>st'. growCandidate st fp g T S = Some (Inr True, st') \<longrightarrow>
            footprints st' = footprints st @ [grownFootprint fp g]
            \<and> policy st' = policy st \<and> badBitMask st' = badBitMask st)"
  using assms
  by (auto simp: growCandidate_small growBody_eq subimage_def)

text \<open>
  On the example inputs: with a masked pixel of the template inside the candidate's box
  the call returns false and the object is left as it was; with two clean images the
  candidate's box is inside both, the call returns true and the list, empty before, holds
  the grown footprint alone.
\<close>

theorem growCandidate_frame_witness:
  "\<not> tooManyPix exampleDetection (Footprint [(3, 3)])
   \<and> (\<exists>p\<in>set (boxPixels (getBBox (grownFootprint (Footprint [(3, 3)]) 1))).
         maskPlane maskedImage p AND badBitMask exampleDetection \<noteq> 0
         \<or> maskPlane cleanImage p AND badBitMask exampleDetection \<noteq> 0)
   \<and> growCandidate exampleDetection (Footprint [(3, 3)]) 1 maskedImage cleanImage =
       Some (Inr False, exampleDetection)
   \<and> contains (bbox cleanImage) (getBBox (grownFootprint (Footprint [(3, 3)]) 1))
   \<and> \<not> (\<exists>p\<in>set (boxPixels (getBBox (grownFootprint (Footprint [(3, 3)]) 1))).
           maskPlane cleanImage p AND badBitMask exampleDetection \<noteq> 0)
   \<and> growCandidate exampleDetection (Footprint [(3, 3)]) 1 cleanImage cleanImage =
       Some (Inr True,
             exampleDetection
               \<lparr>footprints := footprints exampleDetection
                                 @ [grownFootprint (Footprint [(3, 3)]) 1]\<rparr>)
   \<and> footprints exampleDetection = []"
proof -
  have h1: "\<not> tooManyPix exampleDetection (Footprint [(3, 3)])" by code_simp
  have h2: "\<exists>p\<in>set (boxPixels (getBBox (grownFootprint (Footprint [(3, 3)]) 1))).
         maskPlane maskedImage p AND badBitMask exampleDetection \<noteq> 0
         \<or> maskPlane cleanImage p AND badBitMask exampleDetection \<noteq> 0"
    by code_simp
  have h3: "contains (bbox cleanImage) (getBBox (grownFootprint (Footprint [(3, 3)]) 1))"
    by code_simp
  have h4: "\<forall>p\<in>set (boxPixels (getBBox (grownFootprint (Footprint [(3, 3)]) 1))).
         maskPlane cleanImage p AND badBitMask exampleDetection = 0
         \<and> maskPlane cleanImage p AND badBitMask exampleDetection = 0"
    by code_simp
  have e: "footprints exampleDetection = []" by (simp add: exampleDetection_def)
  have rej: "growCandidate exampleDetection (Footprint [(3, 3)]) 1 maskedImage cleanImage =
       Some (Inr False, exampleDetection)"
    using h2 growCandidate_frame [OF h1, of 1 maskedImage cleanImage] by blast
  have acc: "growCandidate exampleDetection (Footprint [(3, 3)]) 1 cleanImage cleanImage =
       Some (Inr True,
             exampleDetection
               \<lparr>footprints := footprints exampleDetection
                                 @ [grownFootprint (Footprint [(3, 3)]) 1]\<rparr>)"
    using h3 h4 growCandidate_frame [OF h1, of 1 cleanImage cleanImage] by blast
  show ?thesis using h1 h2 h3 h4 e rej acc by simp
qed

end
